theory Spec2Isabelle
  imports Main "HOL-Library.Word"
begin

section \<open>The request layer of the land-use scenario client (frontend/src/requests.js)\<close>

text \<open>
  The module exports asynchronous functions. Seven of them call \<^verbatim>\<open>window.fetch\<close> and
  chain \<^verbatim>\<open>.then\<close> and \<^verbatim>\<open>.catch\<close> on the promise; the others resolve at once with a
  value built locally, four of them from \<^verbatim>\<open>window.crypto.getRandomValues\<close>.
  Each function is embedded as a function on an explicit world (the network, the list
  of requests handed to \<^verbatim>\<open>fetch\<close>, the console and the random source) that returns what
  the promise it hands back settles to, and the world afterwards.
\<close>

subsection \<open>Values\<close>

text \<open>What \<^verbatim>\<open>JSON.parse\<close> can produce, and what \<^verbatim>\<open>JSON.stringify\<close> is given.\<close>

datatype json =
  JNull
  | JBool bool
  | JNum int
  | JStr string
  | JArr "json list"
  | JObj "(string \<times> json) list"

datatype jserror = TypeError string | SyntaxError string | DOMException string

text \<open>A promise, by what it settles to.\<close>

datatype 'a settled = Resolved 'a | Rejected jserror

text \<open>
  The values the chained callbacks handle: \<^verbatim>\<open>undefined\<close> (what \<^verbatim>\<open>console.log\<close>
  returns), a parsed JSON value, and the promise object that \<^verbatim>\<open>response.json()\<close> returns.
\<close>

datatype jsval = Undefined | JsonV json | PromiseV "json settled"

fun is_rejected :: "'a settled \<Rightarrow> bool" where
  "is_rejected (Rejected e) = True"
| "is_rejected (Resolved v) = False"

subsection \<open>The world: network, console, random source\<close>

record request =
  rq_url :: string
  rq_method :: string
  rq_headers :: "(string \<times> string) list"
  rq_body :: "json option"

text \<open>
  Of a \<^verbatim>\<open>Response\<close> the module only calls \<^verbatim>\<open>json()\<close>: a promise that resolves with the
  parsed body or rejects when the body does not parse.
\<close>

datatype response = Response "json settled"

fun response_json :: "response \<Rightarrow> json settled" where
  "response_json (Response b) = b"

datatype logged =
  LogError jserror
  | LogWallpaper string json json
  | LogText string

text \<open>
  \<open>respond\<close> is the network and the backend together: given the requests made so far
  and the next one, the promise of \<^verbatim>\<open>window.fetch\<close> rejects (no connection) or
  resolves with a response. \<open>wire\<close> lists the requests handed to \<^verbatim>\<open>fetch\<close>, oldest
  first. \<open>entropy\<close> is the stream of bytes that \<^verbatim>\<open>getRandomValues\<close> will deliver and
  \<open>drawn\<close> how many of them have been taken.
\<close>

record world =
  respond :: "request list \<Rightarrow> request \<Rightarrow> response settled"
  wire :: "request list"
  console :: "logged list"
  entropy :: "nat \<Rightarrow> 8 word"
  drawn :: nat

definition apiBaseURL :: string where
  "apiBaseURL = ''http://127.0.0.1:8000''"

definition fetch :: "request \<Rightarrow> world \<Rightarrow> response settled \<times> world" where
  "fetch rq w = (respond w (wire w) rq, w\<lparr>wire := wire w @ [rq]\<rparr>)"

text \<open>\<^verbatim>\<open>console.log(...)\<close>; its value is \<^verbatim>\<open>undefined\<close>.\<close>

definition console_log :: "logged \<Rightarrow> world \<Rightarrow> world" where
  "console_log l w = w\<lparr>console := console w @ [l]\<rparr>"

text \<open>
  \<^verbatim>\<open>p.then(f)\<close>: a rejection passes through; otherwise the new promise settles as the
  callback's result does (a returned promise is adopted, a thrown error rejects).
\<close>

fun p_then :: "'a settled \<Rightarrow> ('a \<Rightarrow> 'b settled) \<Rightarrow> 'b settled" where
  "p_then (Resolved v) f = f v"
| "p_then (Rejected e) f = Rejected e"

text \<open>\<^verbatim>\<open>p.catch((error) => console.log(error))\<close>.\<close>

fun p_catch_log :: "jsval settled \<Rightarrow> world \<Rightarrow> jsval settled \<times> world" where
  "p_catch_log (Resolved v) w = (Resolved v, w)"
| "p_catch_log (Rejected e) w = (Resolved Undefined, console_log (LogError e) w)"

text \<open>\<^verbatim>\<open>(response) => response.json()\<close>: the callback returns the promise, which is adopted.\<close>

fun json_callback :: "response \<Rightarrow> jsval settled" where
  "json_callback r =
     (case response_json r of Resolved j \<Rightarrow> Resolved (JsonV j) | Rejected e \<Rightarrow> Rejected e)"

text \<open>
  Reading a property \<^verbatim>\<open>v.k\<close>, for the two names the module reads (\<^verbatim>\<open>scenario_id\<close> and
  \<^verbatim>\<open>status\<close>), which no built-in prototype defines: on \<^verbatim>\<open>undefined\<close> and \<^verbatim>\<open>null\<close> the
  read throws a TypeError; on a parsed object it is the member's value (the last one
  when the text repeated the key) or \<^verbatim>\<open>undefined\<close>; on a boolean, number, string, array
  or promise object it is \<^verbatim>\<open>undefined\<close>.
\<close>

fun get_prop :: "jsval \<Rightarrow> string \<Rightarrow> jsval settled" where
  "get_prop Undefined k = Rejected (TypeError ''cannot read properties of undefined'')"
| "get_prop (JsonV JNull) k = Rejected (TypeError ''cannot read properties of null'')"
| "get_prop (JsonV (JObj kvs)) k =
     Resolved (case map_of (rev kvs) k of None \<Rightarrow> Undefined | Some v \<Rightarrow> JsonV v)"
| "get_prop (JsonV j) k = Resolved Undefined"
| "get_prop (PromiseV p) k = Resolved Undefined"

text \<open>\<^verbatim>\<open>window.crypto.getRandomValues(new Uint8Array(1))[0]\<close>: one byte, read as a number.\<close>

definition getRandomByte :: "world \<Rightarrow> nat \<times> world" where
  "getRandomByte w = (unat (entropy w (drawn w)), w\<lparr>drawn := Suc (drawn w)\<rparr>)"

subsection \<open>The operations that call the backend\<close>

definition createSession :: "world \<Rightarrow> jsval settled \<times> world" where
  "createSession w =
     (let (p, w1) = fetch \<lparr>rq_url = apiBaseURL @ ''/users'', rq_method = ''post'',
                           rq_headers = [(''Content-Type'', ''application/json'')],
                           rq_body = None\<rparr> w
      in p_catch_log (p_then p json_callback) w1)"

definition getAllScenarios :: "string \<Rightarrow> world \<Rightarrow> jsval settled \<times> world" where
  "getAllScenarios sessionID w =
     (let (p, w1) = fetch \<lparr>rq_url = apiBaseURL @ ''/scenarios/'' @ sessionID,
                           rq_method = ''get'', rq_headers = [], rq_body = None\<rparr> w
      in p_catch_log (p_then p json_callback) w1)"

definition getScenario :: "string \<Rightarrow> world \<Rightarrow> jsval settled \<times> world" where
  "getScenario ident w =
     (let (p, w1) = fetch \<lparr>rq_url = apiBaseURL @ ''/scenario/'' @ ident,
                           rq_method = ''get'', rq_headers = [], rq_body = None\<rparr> w
      in p_catch_log (p_then p json_callback) w1)"

definition makeScenario :: "string \<Rightarrow> json \<Rightarrow> json \<Rightarrow> world \<Rightarrow> jsval settled \<times> world" where
  "makeScenario sessionID name description w =
     (let (p, w1) = fetch \<lparr>rq_url = apiBaseURL @ ''/scenario/'' @ sessionID,
                           rq_method = ''post'',
                           rq_headers = [(''Content-Type'', ''application/json'')],
                           rq_body = Some (JObj [(''name'', name),
                                                 (''description'', description)])\<rparr> w
      in p_catch_log
           (p_then (p_then p json_callback) (\<lambda>json. get_prop json ''scenario_id'')) w1)"

text \<open>
  In \<^verbatim>\<open>getJobStatus\<close> the callback is \<^verbatim>\<open>(response) => response.json().status\<close>: the
  property is read from the promise object that \<^verbatim>\<open>json()\<close> returns, not from the body
  it will resolve with.
\<close>

definition getJobStatus :: "string \<Rightarrow> world \<Rightarrow> jsval settled \<times> world" where
  "getJobStatus jobID w =
     (let (p, w1) = fetch \<lparr>rq_url = apiBaseURL @ ''/job/'' @ jobID,
                           rq_method = ''get'', rq_headers = [], rq_body = None\<rparr> w
      in p_catch_log
           (p_then p (\<lambda>response. get_prop (PromiseV (response_json response)) ''status''))
           w1)"

text \<open>\<^verbatim>\<open>Array.prototype.join\<close> on strings.\<close>

fun join :: "string \<Rightarrow> string list \<Rightarrow> string" where
  "join sep [] = []"
| "join sep [x] = x"
| "join sep (x # y # ys) = x @ sep @ join sep (y # ys)"

text \<open>
  \<^verbatim>\<open>`${coords[0]} ${coords[1]}`\<close>. \<open>str\<close> is the conversion of a coordinate to text
  that the template literal applies; an index past the end of \<open>coords\<close> reads
  \<^verbatim>\<open>undefined\<close>, which prints as that word.
\<close>

definition elem_text :: "('c \<Rightarrow> string) \<Rightarrow> 'c list \<Rightarrow> nat \<Rightarrow> string" where
  "elem_text str coords i = (if i < length coords then str (coords ! i) else ''undefined'')"

definition coords_text :: "('c \<Rightarrow> string) \<Rightarrow> 'c list \<Rightarrow> string" where
  "coords_text str coords = elem_text str coords 0 @ '' '' @ elem_text str coords 1"

definition targetWKT :: "('c \<Rightarrow> string) \<Rightarrow> 'c list list \<Rightarrow> string" where
  "targetWKT str targetCoords =
     ''POLYGON(('' @ join '', '' (map (coords_text str) targetCoords) @ ''))''"

definition wallpaper_request :: "string \<Rightarrow> json \<Rightarrow> json \<Rightarrow> request" where
  "wallpaper_request wkt patternID scenarioID =
     \<lparr>rq_url = apiBaseURL @ ''/wallpaper'', rq_method = ''post'',
      rq_headers = [(''Content-Type'', ''application/json'')],
      rq_body = Some (JObj [(''scenario_id'', scenarioID),
                            (''target_parcel_wkt'', JStr wkt),
                            (''pattern_id'', patternID)])\<rparr>"

definition doWallpaper ::
  "('c \<Rightarrow> string) \<Rightarrow> 'c list list \<Rightarrow> json \<Rightarrow> json \<Rightarrow> world \<Rightarrow> jsval settled \<times> world" where
  "doWallpaper str targetCoords patternID scenarioID w =
     (let wkt = targetWKT str targetCoords;
          w0 = console_log (LogWallpaper wkt scenarioID patternID) w;
          (p, w1) = fetch (wallpaper_request wkt patternID scenarioID) w0
      in p_catch_log (p_then p json_callback) w1)"

definition getPatterns :: "string \<Rightarrow> world \<Rightarrow> jsval settled \<times> world" where
  "getPatterns sessionID w =
     (let (p, w1) = fetch \<lparr>rq_url = apiBaseURL @ ''/pattern/'' @ sessionID,
                           rq_method = ''get'', rq_headers = [], rq_body = None\<rparr> w
      in p_catch_log (p_then p json_callback) w1)"

subsection \<open>The operations that answer locally\<close>

definition convertToSingleLULC :: "'g \<Rightarrow> 'l \<Rightarrow> 's \<Rightarrow> world \<Rightarrow> string settled \<times> world" where
  "convertToSingleLULC geom lulcCode scenarioID w = (Resolved ''fooJobID'', w)"

text \<open>An object literal evaluates its members in the order written.\<close>

definition getWallpaperResults :: "'j \<Rightarrow> world \<Rightarrow> (string \<times> nat) list settled \<times> world" where
  "getWallpaperResults jobID w =
     (let (forest, w1) = getRandomByte w;
          (housing, w2) = getRandomByte w1;
          (grass, w3) = getRandomByte w2;
          (commercial, w4) = getRandomByte w3;
          (orchard, w5) = getRandomByte w4
      in (Resolved [(''forest'', forest), (''housing'', housing), (''grass'', grass),
                    (''commercial'', commercial), (''orchard'', orchard)], w5))"

definition getLulcTableForParcel :: "'g \<Rightarrow> world \<Rightarrow> (string \<times> nat) list settled \<times> world" where
  "getLulcTableForParcel geom w =
     (let (forest, w1) = getRandomByte w;
          (grass, w2) = getRandomByte w1;
          (housing, w3) = getRandomByte w2;
          (commercial, w4) = getRandomByte w3;
          (orchard, w5) = getRandomByte w4
      in (Resolved [(''forest'', forest), (''grass'', grass), (''housing'', housing),
                    (''commercial'', commercial), (''orchard'', orchard)], w5))"

definition getLulcCodes :: "world \<Rightarrow> (nat \<times> string) list settled \<times> world" where
  "getLulcCodes w =
     (Resolved [(1, ''forest''), (2, ''grass''), (3, ''housing''), (4, ''commercial''),
                (5, ''orchard'')], w)"

text \<open>
  \<open>gstr\<close> is the conversion to text that the template literal applies to \<open>geom\<close>.
\<close>

definition createPattern :: "('g \<Rightarrow> string) \<Rightarrow> 'g \<Rightarrow> string \<Rightarrow> world \<Rightarrow> nat settled \<times> world" where
  "createPattern gstr geom name w =
     (let w0 = console_log (LogText (''create pattern '' @ name @ '' with geometry ''
                                      @ gstr geom)) w;
          (b, w1) = getRandomByte w0
      in (Resolved b, w1))"


subsection \<open>Calling createPattern several times\<close>

text \<open>
  One call after the other on the same world, each with its own geometry and name; the
  result lists what the calls resolved with, first call first.
\<close>

fun createPatterns ::
  "('g \<Rightarrow> string) \<Rightarrow> ('g \<times> string) list \<Rightarrow> world \<Rightarrow> nat settled list \<times> world" where
  "createPatterns gstr [] w = ([], w)"
| "createPatterns gstr ((geom, name) # rest) w =
     (let (r, w1) = createPattern gstr geom name w;
          (rs, w2) = createPatterns gstr rest w1
      in (r # rs, w2))"

subsection \<open>The contract's wording, for comparison with the code\<close>

text \<open>
  The wire format as the contract words it: \<^verbatim>\<open>POLYGON((x1 y1, x2 y2, ..., x1 y1))\<close>, the
  ring given without its closing point and the first pair written again at the end.
\<close>

definition closedRingWKT :: "('c \<Rightarrow> string) \<Rightarrow> 'c list list \<Rightarrow> string" where
  "closedRingWKT str ring =
     ''POLYGON(('' @
       join '', '' (map (coords_text str) (case ring of [] \<Rightarrow> [] | p # ps \<Rightarrow> ring @ [p]))
     @ ''))''"

text \<open>
  The status of a job as the backend would report it now: the \<^verbatim>\<open>status\<close> member of the
  body it answers \<^verbatim>\<open>GET /job/{jobID}\<close> with, if it answers with an object.
\<close>

definition job_status_of :: "world \<Rightarrow> string \<Rightarrow> json option" where
  "job_status_of w jobID =
     (case respond w (wire w)
             \<lparr>rq_url = apiBaseURL @ ''/job/'' @ jobID, rq_method = ''get'',
              rq_headers = [], rq_body = None\<rparr> of
        Resolved r \<Rightarrow>
          (case response_json r of
             Resolved (JObj kvs) \<Rightarrow> map_of (rev kvs) ''status''
           | _ \<Rightarrow> None)
      | Rejected e \<Rightarrow> None)"

text \<open>
  The two ways the call for one request \<open>rq\<close>, made now, can fail with an
  error \<open>e\<close>: \<^verbatim>\<open>fetch\<close> rejects with \<open>e\<close> (the network call fails), or it resolves with
  a response whose body does not decode, so that \<^verbatim>\<open>json()\<close> rejects with \<open>e\<close>.
\<close>

definition call_fails :: "world \<Rightarrow> request \<Rightarrow> jserror \<Rightarrow> bool" where
  "call_fails w rq e \<longleftrightarrow> respond w (wire w) rq = Rejected e"

definition body_undecodable :: "world \<Rightarrow> request \<Rightarrow> jserror \<Rightarrow> bool" where
  "body_undecodable w rq e \<longleftrightarrow> respond w (wire w) rq = Resolved (Response (Rejected e))"

subsection \<open>Conversions to text, for concrete inputs\<close>

text \<open>
  How a template literal prints a number that is an integer a double holds exactly
  (of magnitude below \<open>2^53\<close>): its decimal digits, after a minus sign when negative.
\<close>

definition digit_char :: "nat \<Rightarrow> char" where
  "digit_char d = char_of (48 + d)"

fun digits :: "nat \<Rightarrow> string" where
  "digits n = (if n < 10 then [digit_char n] else digits (n div 10) @ [digit_char (n mod 10)])"

declare digits.simps [simp del]

definition numberToString :: "int \<Rightarrow> string" where
  "numberToString i = (if i < 0 then ''-'' @ digits (nat (- i)) else digits (nat i))"

text \<open>How a template literal prints an array of arrays: all elements, joined by commas.\<close>

definition array_text :: "('c \<Rightarrow> string) \<Rightarrow> 'c list list \<Rightarrow> string" where
  "array_text str geom = join '','' (map (\<lambda>coords. join '','' (map str coords)) geom)"

subsection \<open>Sample worlds\<close>

text \<open>
  A fresh page: nothing requested, nothing logged, no byte drawn. \<open>answering j\<close> is
  a backend that answers every request with the body \<open>j\<close>, \<open>garbled e\<close> one whose
  bodies do not parse, \<open>offline e\<close> a network on which every \<^verbatim>\<open>fetch\<close> rejects, and
  \<open>users_down e\<close> a backend of which only the \<^verbatim>\<open>/users\<close> endpoint cannot be reached
  while every other request is answered with an empty object. In all of them every
  random byte is 7.
\<close>

definition quiet ::
  "(request list \<Rightarrow> request \<Rightarrow> response settled) \<Rightarrow> (nat \<Rightarrow> 8 word) \<Rightarrow> world" where
  "quiet net rnd = \<lparr>respond = net, wire = [], console = [], entropy = rnd, drawn = 0\<rparr>"

definition answering :: "json \<Rightarrow> world" where
  "answering j = quiet (\<lambda>hist rq. Resolved (Response (Resolved j))) (\<lambda>i. 7)"

definition garbled :: "jserror \<Rightarrow> world" where
  "garbled e = quiet (\<lambda>hist rq. Resolved (Response (Rejected e))) (\<lambda>i. 7)"

definition offline :: "jserror \<Rightarrow> world" where
  "offline e = quiet (\<lambda>hist rq. Rejected e) (\<lambda>i. 7)"

definition users_down :: "jserror \<Rightarrow> world" where
  "users_down e =
     quiet (\<lambda>hist rq. if rq_url rq = apiBaseURL @ ''/users'' then Rejected e
                      else Resolved (Response (Resolved (JObj [])))) (\<lambda>i. 7)"

section \<open>Properties\<close>

subsection \<open>Basic facts about the promise chain\<close>

lemma p_catch_log_wire: "wire (snd (p_catch_log p w)) = wire w"
  by (cases p) (simp_all add: console_log_def)

lemma p_catch_log_resolves: "\<not> is_rejected (fst (p_catch_log p w))"
  by (cases p) simp_all

lemma doWallpaper_wire:
  "wire (snd (doWallpaper str targetCoords patternID scenarioID w)) =
     wire w @ [wallpaper_request (targetWKT str targetCoords) patternID scenarioID]"
  by (simp add: doWallpaper_def Let_def fetch_def p_catch_log_wire console_log_def)

text \<open>
  A failed call, or a body that does not parse, ends in the \<^verbatim>\<open>catch\<close> handler: the
  error goes to the console and the promise resolves with \<^verbatim>\<open>undefined\<close>.
\<close>

lemma fetch_json_fails:
  assumes "respond w (wire w) rq = Rejected e
           \<or> respond w (wire w) rq = Resolved (Response (Rejected e))"
  shows "(case fetch rq w of (p, w1) \<Rightarrow> p_catch_log (p_then p json_callback) w1)
           = (Resolved Undefined,
              w\<lparr>wire := wire w @ [rq], console := console w @ [LogError e]\<rparr>)"
  using assms by (auto simp: fetch_def console_log_def)

lemma fetch_prop_fails:
  assumes "respond w (wire w) rq = Rejected e
           \<or> respond w (wire w) rq = Resolved (Response (Rejected e))"
  shows "(case fetch rq w of (p, w1) \<Rightarrow>
            p_catch_log (p_then (p_then p json_callback) f) w1)
           = (Resolved Undefined,
              w\<lparr>wire := wire w @ [rq], console := console w @ [LogError e]\<rparr>)"
  using assms by (auto simp: fetch_def console_log_def)

subsection \<open>The locally answered operations, computed\<close>

lemma getWallpaperResults_eq:
  "getWallpaperResults jobID w =
     (Resolved [(''forest'', unat (entropy w (drawn w))),
                (''housing'', unat (entropy w (drawn w + 1))),
                (''grass'', unat (entropy w (drawn w + 2))),
                (''commercial'', unat (entropy w (drawn w + 3))),
                (''orchard'', unat (entropy w (drawn w + 4)))],
      w\<lparr>drawn := drawn w + 5\<rparr>)"
  by (simp add: getWallpaperResults_def getRandomByte_def numeral_eq_Suc)

lemma getLulcTableForParcel_eq:
  "getLulcTableForParcel geom w =
     (Resolved [(''forest'', unat (entropy w (drawn w))),
                (''grass'', unat (entropy w (drawn w + 1))),
                (''housing'', unat (entropy w (drawn w + 2))),
                (''commercial'', unat (entropy w (drawn w + 3))),
                (''orchard'', unat (entropy w (drawn w + 4)))],
      w\<lparr>drawn := drawn w + 5\<rparr>)"
  by (simp add: getLulcTableForParcel_def getRandomByte_def numeral_eq_Suc)

lemma createPattern_eq:
  "createPattern gstr geom name w =
     (Resolved (unat (entropy w (drawn w))),
      w\<lparr>console := console w @ [LogText (''create pattern '' @ name @ '' with geometry ''
                                           @ gstr geom)],
        drawn := Suc (drawn w)\<rparr>)"
  by (simp add: createPattern_def getRandomByte_def console_log_def)

lemma byte_le_255: "unat (b :: 8 word) \<le> 255"
proof -
  have "unat b < 2 ^ LENGTH(8)"
    by (rule unsigned_less)
  then show ?thesis by simp
qed

lemma createPatterns_range:
  "set (fst (createPatterns gstr calls w)) \<subseteq> Resolved ` {..255}"
proof (induction calls arbitrary: w)
  case Nil
  show ?case by simp
next
  case (Cons c calls)
  obtain geom name where c: "c = (geom, name)" by (cases c)
  show ?case
    using Cons.IH byte_le_255
    by (simp add: c createPattern_eq split: prod.split) (metis fst_conv)
qed

lemma createPatterns_length:
  "length (fst (createPatterns gstr calls w)) = length calls"
proof (induction calls arbitrary: w)
  case Nil
  show ?case by simp
next
  case (Cons c calls)
  obtain geom name where c: "c = (geom, name)" by (cases c)
  show ?case
    using Cons.IH
    by (simp add: c createPattern_eq split: prod.split) (metis fst_conv)
qed


subsection \<open>The wallpaper submission\<close>

text \<open>
  C1, as stated, at the geometry \<open>(0,0), (0,1), (1,1), (1,0)\<close> whose first point is
  not repeated at the end: the request that goes out carries
  \<^verbatim>\<open>POLYGON((0 0, 0 1, 1 1, 1 0))\<close>, while the closed ring of the contract would be
  \<^verbatim>\<open>POLYGON((0 0, 0 1, 1 1, 1 0, 0 0))\<close>. The first pair is not written again.
\<close>

theorem doWallpaper_ring_left_open:
  "rq_body (last (wire (snd (doWallpaper numberToString [[0, 0], [0, 1], [1, 1], [1, 0]]
       (JStr ''P1'') (JStr ''S1'') (answering (JObj [(''job_id'', JStr ''J1'')]))))))
     = Some (JObj [(''scenario_id'', JStr ''S1''),
                   (''target_parcel_wkt'', JStr ''POLYGON((0 0, 0 1, 1 1, 1 0))''),
                   (''pattern_id'', JStr ''P1'')])
   \<and> closedRingWKT numberToString [[0, 0], [0, 1], [1, 1], [1, 0]]
       = ''POLYGON((0 0, 0 1, 1 1, 1 0, 0 0))''
   \<and> targetWKT numberToString [[0, 0], [0, 1], [1, 1], [1, 0]]
       \<noteq> closedRingWKT numberToString [[0, 0], [0, 1], [1, 1], [1, 0]]"
proof -
  have a: "targetWKT numberToString [[0, 0], [0, 1], [1, 1], [1, 0]]
             = ''POLYGON((0 0, 0 1, 1 1, 1 0))''"
    by code_simp
  have b: "closedRingWKT numberToString [[0, 0], [0, 1], [1, 1], [1, 0]]
             = ''POLYGON((0 0, 0 1, 1 1, 1 0, 0 0))''"
    by code_simp
  show ?thesis
    unfolding doWallpaper_wire a b
    by (simp add: wallpaper_request_def)
qed

text \<open>
  C1, amended: for every target geometry the submission sends one request whose
  \<^verbatim>\<open>target_parcel_wkt\<close> is \<^verbatim>\<open>POLYGON((x1 y1, x2 y2, ..., xn yn))\<close>, the pairs exactly as
  given, in the order given, joined by a comma and a space; no pair is added. The
  string is the closed ring of the contract when the caller's list already ends with
  its first point: for a list \<open>p, ps, p\<close> it is the closed-ring text of \<open>p, ps\<close>.
\<close>

theorem doWallpaper_wkt_as_given:
  "(\<exists>rq. wire (snd (doWallpaper str targetCoords patternID scenarioID w)) = wire w @ [rq]
        \<and> rq_body rq =
            Some (JObj [(''scenario_id'', scenarioID),
                        (''target_parcel_wkt'',
                           JStr (''POLYGON(('' @ join '', '' (map (coords_text str) targetCoords)
                                 @ ''))'')),
                        (''pattern_id'', patternID)]))
   \<and> (\<forall>p ps. targetCoords = (p # ps) @ [p] \<longrightarrow>
         targetWKT str targetCoords = closedRingWKT str (p # ps))"
  by (simp add: doWallpaper_wire wallpaper_request_def targetWKT_def closedRingWKT_def)

text \<open>
  The amended C1 at a ring the caller closed, \<open>(0,0), (0,1), (1,1), (0,0)\<close>: the text
  sent is the closed-ring text of the triangle.
\<close>

theorem doWallpaper_wkt_as_given_witness:
  "rq_body (last (wire (snd (doWallpaper numberToString [[0, 0], [0, 1], [1, 1], [0, 0]]
       (JStr ''P1'') (JStr ''S1'') (answering (JObj [(''job_id'', JStr ''J1'')]))))))
     = Some (JObj [(''scenario_id'', JStr ''S1''),
                   (''target_parcel_wkt'', JStr ''POLYGON((0 0, 0 1, 1 1, 0 0))''),
                   (''pattern_id'', JStr ''P1'')])
   \<and> targetWKT numberToString [[0, 0], [0, 1], [1, 1], [0, 0]]
       = closedRingWKT numberToString [[0, 0], [0, 1], [1, 1]]"
proof -
  have a: "join '', '' (map (coords_text numberToString) [[0, 0], [0, 1], [1, 1], [0, 0]])
             = ''0 0, 0 1, 1 1, 0 0''"
    by code_simp
  from doWallpaper_wkt_as_given [of numberToString "[[0, 0], [0, 1], [1, 1], [0, 0]]"
      "JStr ''P1''" "JStr ''S1''" "answering (JObj [(''job_id'', JStr ''J1'')])"]
  show ?thesis
    unfolding a by auto
qed

text \<open>
  C2, as stated, at the two-point geometry \<open>(0,0), (1,1)\<close>: nothing had been requested
  before, the call hands one \<^verbatim>\<open>POST /wallpaper\<close> request to the network, and it resolves
  with the backend's answer instead of failing.
\<close>

theorem doWallpaper_two_points_sent:
  "card (set [[0, 0], [1, 1 :: int]]) < 3
   \<and> wire (answering (JObj [(''job_id'', JStr ''J1'')])) = []
   \<and> wire (snd (doWallpaper numberToString [[0, 0], [1, 1]] (JStr ''P1'') (JStr ''S1'')
               (answering (JObj [(''job_id'', JStr ''J1'')]))))
       = [wallpaper_request ''POLYGON((0 0, 1 1))'' (JStr ''P1'') (JStr ''S1'')]
   \<and> fst (doWallpaper numberToString [[0, 0], [1, 1]] (JStr ''P1'') (JStr ''S1'')
            (answering (JObj [(''job_id'', JStr ''J1'')])))
       = Resolved (JsonV (JObj [(''job_id'', JStr ''J1'')]))"
proof -
  have a: "targetWKT numberToString [[0, 0], [1, 1]] = ''POLYGON((0 0, 1 1))''"
    by code_simp
  have b: "fst (doWallpaper numberToString [[0, 0], [1, 1]] (JStr ''P1'') (JStr ''S1'')
            (answering (JObj [(''job_id'', JStr ''J1'')])))
       = Resolved (JsonV (JObj [(''job_id'', JStr ''J1'')]))"
    by (simp add: doWallpaper_def Let_def fetch_def console_log_def answering_def quiet_def)
  show ?thesis
    unfolding doWallpaper_wire a b
    by (simp add: answering_def quiet_def)
qed

text \<open>
  C2, amended: for every call of the submit operation whose target geometry is a list
  of coordinate lists, with fewer than 3 distinct points or with more, the operation
  does not check the geometry: it hands exactly one request, the \<^verbatim>\<open>POST /wallpaper\<close>
  with the encoded geometry, to the network, and the promise it returns does not
  reject. (A target geometry that is no list, or has a point that is \<^verbatim>\<open>null\<close> or
  \<^verbatim>\<open>undefined\<close>, is not an input of this model: building the text throws there,
  before the call.)
\<close>

theorem doWallpaper_always_transmits:
  "wire (snd (doWallpaper str targetCoords patternID scenarioID w))
     = wire w @ [wallpaper_request (targetWKT str targetCoords) patternID scenarioID]
   \<and> \<not> is_rejected (fst (doWallpaper str targetCoords patternID scenarioID w))"
  by (simp add: doWallpaper_wire)
     (simp add: doWallpaper_def Let_def p_catch_log_resolves split: prod.split)

subsection \<open>Job status and job result\<close>

text \<open>
  C3, as stated, at a job \<^verbatim>\<open>J1\<close> that the backend reports as \<^verbatim>\<open>running\<close>: the result
  operation resolves with a table of five entries.
\<close>

theorem getWallpaperResults_while_running:
  "job_status_of (answering (JObj [(''status'', JStr ''running'')])) ''J1''
     = Some (JStr ''running'')
   \<and> fst (getWallpaperResults ''J1'' (answering (JObj [(''status'', JStr ''running'')])))
       = Resolved [(''forest'', 7), (''housing'', 7), (''grass'', 7), (''commercial'', 7),
                   (''orchard'', 7)]"
  by (simp add: job_status_of_def getWallpaperResults_eq answering_def quiet_def)

text \<open>
  C3, amended: for every job id, whatever the status of the job, getWallpaperResults
  resolves with a complete table: the five categories forest, housing, grass,
  commercial and orchard, each with the next byte of the random source. It asks the
  backend nothing and logs nothing, so it cannot tell a finished job from any other.
\<close>

theorem getWallpaperResults_ignores_status:
  "fst (getWallpaperResults jobID w) =
     Resolved [(''forest'', unat (entropy w (drawn w))),
               (''housing'', unat (entropy w (drawn w + 1))),
               (''grass'', unat (entropy w (drawn w + 2))),
               (''commercial'', unat (entropy w (drawn w + 3))),
               (''orchard'', unat (entropy w (drawn w + 4)))]
   \<and> wire (snd (getWallpaperResults jobID w)) = wire w
   \<and> console (snd (getWallpaperResults jobID w)) = console w"
  by (simp add: getWallpaperResults_eq)

text \<open>
  getJobStatus resolves with \<^verbatim>\<open>undefined\<close> in every world: after a failed call through
  the \<^verbatim>\<open>catch\<close> handler, after an answered one because \<^verbatim>\<open>status\<close> is read from the
  promise that \<^verbatim>\<open>json()\<close> returns.
\<close>

lemma getJobStatus_always_undefined:
  "fst (getJobStatus jobID w) = Resolved Undefined"
  by (cases "respond w (wire w) \<lparr>rq_url = apiBaseURL @ ''/job/'' @ jobID,
        rq_method = ''get'', rq_headers = [], rq_body = None\<rparr>")
     (simp_all add: getJobStatus_def fetch_def)

text \<open>
  C4 at a backend that answers \<^verbatim>\<open>GET /job/J1\<close> with the body \<^verbatim>\<open>{"status": "succeeded"}\<close>:
  the caller of getJobStatus receives \<^verbatim>\<open>undefined\<close>, not the string, and nothing is
  logged.
\<close>

theorem getJobStatus_drops_status:
  "job_status_of (answering (JObj [(''status'', JStr ''succeeded'')])) ''J1''
     = Some (JStr ''succeeded'')
   \<and> fst (getJobStatus ''J1'' (answering (JObj [(''status'', JStr ''succeeded'')])))
       = Resolved Undefined
   \<and> console (snd (getJobStatus ''J1'' (answering (JObj [(''status'', JStr ''succeeded'')]))))
       = []"
  by (simp add: job_status_of_def getJobStatus_def fetch_def answering_def quiet_def)

text \<open>
  For comparison, makeScenario reads its member from the parsed body: at a backend
  that answers with \<^verbatim>\<open>{"scenario_id": "S1"}\<close> the caller receives \<^verbatim>\<open>"S1"\<close>.
\<close>

lemma makeScenario_reads_body:
  "fst (makeScenario ''U1'' (JStr ''plan'') (JStr ''text'')
          (answering (JObj [(''scenario_id'', JStr ''S1'')])))
     = Resolved (JsonV (JStr ''S1''))"
  by (simp add: makeScenario_def fetch_def answering_def quiet_def)


subsection \<open>Failures of the network\<close>

text \<open>
  C5, as stated, at a network that is down, at a backend whose bodies do not parse and
  at a backend that answers with an empty object: createSession resolves with
  \<^verbatim>\<open>undefined\<close> after either failure, so the value names no kind of error, and
  makeScenario resolves with \<^verbatim>\<open>undefined\<close> after the failed call exactly as it does
  after the answered one. No promise rejects.
\<close>

theorem failure_kinds_indistinguishable:
  "fst (createSession (offline (TypeError ''Failed to fetch''))) = Resolved Undefined
   \<and> fst (createSession (garbled (SyntaxError ''Unexpected token''))) = Resolved Undefined
   \<and> fst (makeScenario ''U1'' (JStr ''plan'') (JStr ''text'')
            (offline (TypeError ''Failed to fetch''))) = Resolved Undefined
   \<and> fst (makeScenario ''U1'' (JStr ''plan'') (JStr ''text'') (answering (JObj [])))
       = Resolved Undefined"
  by (simp add: createSession_def makeScenario_def fetch_def console_log_def
        offline_def garbled_def answering_def quiet_def)

text \<open>
  C5, amended: for each of createSession, getAllScenarios, getScenario, makeScenario,
  doWallpaper and getPatterns, when the operation's own network call fails with an
  error \<open>e\<close>, or the response to it does not decode, with \<open>e\<close>, the operation writes
  \<open>e\<close> to the console and resolves with \<^verbatim>\<open>undefined\<close>; getJobStatus does so when its
  own network call fails. What other requests would meet does not matter. The result
  carries no error kind and the promise does not reject.
\<close>

theorem failures_logged_result_undefined:
  "(call_fails w \<lparr>rq_url = apiBaseURL @ ''/users'', rq_method = ''post'',
                   rq_headers = [(''Content-Type'', ''application/json'')],
                   rq_body = None\<rparr> e
      \<or> body_undecodable w \<lparr>rq_url = apiBaseURL @ ''/users'', rq_method = ''post'',
                   rq_headers = [(''Content-Type'', ''application/json'')],
                   rq_body = None\<rparr> e
    \<longrightarrow> fst (createSession w) = Resolved Undefined
        \<and> console (snd (createSession w)) = console w @ [LogError e])
   \<and> (call_fails w \<lparr>rq_url = apiBaseURL @ ''/scenarios/'' @ sessionID,
                     rq_method = ''get'', rq_headers = [], rq_body = None\<rparr> e
      \<or> body_undecodable w \<lparr>rq_url = apiBaseURL @ ''/scenarios/'' @ sessionID,
                     rq_method = ''get'', rq_headers = [], rq_body = None\<rparr> e
    \<longrightarrow> fst (getAllScenarios sessionID w) = Resolved Undefined
        \<and> console (snd (getAllScenarios sessionID w)) = console w @ [LogError e])
   \<and> (call_fails w \<lparr>rq_url = apiBaseURL @ ''/scenario/'' @ ident,
                     rq_method = ''get'', rq_headers = [], rq_body = None\<rparr> e
      \<or> body_undecodable w \<lparr>rq_url = apiBaseURL @ ''/scenario/'' @ ident,
                     rq_method = ''get'', rq_headers = [], rq_body = None\<rparr> e
    \<longrightarrow> fst (getScenario ident w) = Resolved Undefined
        \<and> console (snd (getScenario ident w)) = console w @ [LogError e])
   \<and> (call_fails w \<lparr>rq_url = apiBaseURL @ ''/scenario/'' @ sessionID,
                     rq_method = ''post'',
                     rq_headers = [(''Content-Type'', ''application/json'')],
                     rq_body = Some (JObj [(''name'', name),
                                           (''description'', description)])\<rparr> e
      \<or> body_undecodable w \<lparr>rq_url = apiBaseURL @ ''/scenario/'' @ sessionID,
                     rq_method = ''post'',
                     rq_headers = [(''Content-Type'', ''application/json'')],
                     rq_body = Some (JObj [(''name'', name),
                                           (''description'', description)])\<rparr> e
    \<longrightarrow> fst (makeScenario sessionID name description w) = Resolved Undefined
        \<and> console (snd (makeScenario sessionID name description w))
            = console w @ [LogError e])
   \<and> (call_fails w (wallpaper_request (targetWKT str targetCoords) patternID scenarioID) e
      \<or> body_undecodable w
           (wallpaper_request (targetWKT str targetCoords) patternID scenarioID) e
    \<longrightarrow> fst (doWallpaper str targetCoords patternID scenarioID w) = Resolved Undefined
        \<and> console (snd (doWallpaper str targetCoords patternID scenarioID w))
            = console w @ [LogWallpaper (targetWKT str targetCoords) scenarioID patternID,
                           LogError e])
   \<and> (call_fails w \<lparr>rq_url = apiBaseURL @ ''/pattern/'' @ sessionID,
                     rq_method = ''get'', rq_headers = [], rq_body = None\<rparr> e
      \<or> body_undecodable w \<lparr>rq_url = apiBaseURL @ ''/pattern/'' @ sessionID,
                     rq_method = ''get'', rq_headers = [], rq_body = None\<rparr> e
    \<longrightarrow> fst (getPatterns sessionID w) = Resolved Undefined
        \<and> console (snd (getPatterns sessionID w)) = console w @ [LogError e])
   \<and> (call_fails w \<lparr>rq_url = apiBaseURL @ ''/job/'' @ jobID,
                     rq_method = ''get'', rq_headers = [], rq_body = None\<rparr> e
    \<longrightarrow> fst (getJobStatus jobID w) = Resolved Undefined
        \<and> console (snd (getJobStatus jobID w)) = console w @ [LogError e])"
proof -
  have own: "call_fails w rq e \<or> body_undecodable w rq e \<Longrightarrow>
             respond w (wire w) rq = Rejected e
             \<or> respond w (wire w) rq = Resolved (Response (Rejected e))" for rq
    by (simp add: call_fails_def body_undecodable_def)
  have logged: "call_fails w rq e \<or> body_undecodable w rq e \<Longrightarrow>
             respond (console_log l w) (wire (console_log l w)) rq = Rejected e
             \<or> respond (console_log l w) (wire (console_log l w)) rq
                 = Resolved (Response (Rejected e))" for rq l
    by (simp add: call_fails_def body_undecodable_def console_log_def)
  have 1: "fst (createSession w) = Resolved Undefined
       \<and> console (snd (createSession w)) = console w @ [LogError e]"
    if "call_fails w \<lparr>rq_url = apiBaseURL @ ''/users'', rq_method = ''post'',
                   rq_headers = [(''Content-Type'', ''application/json'')],
                   rq_body = None\<rparr> e
      \<or> body_undecodable w \<lparr>rq_url = apiBaseURL @ ''/users'', rq_method = ''post'',
                   rq_headers = [(''Content-Type'', ''application/json'')],
                   rq_body = None\<rparr> e"
    using fetch_json_fails [OF own [OF that]] by (simp add: createSession_def)
  have 2: "fst (getAllScenarios sessionID w) = Resolved Undefined
       \<and> console (snd (getAllScenarios sessionID w)) = console w @ [LogError e]"
    if "call_fails w \<lparr>rq_url = apiBaseURL @ ''/scenarios/'' @ sessionID,
                     rq_method = ''get'', rq_headers = [], rq_body = None\<rparr> e
      \<or> body_undecodable w \<lparr>rq_url = apiBaseURL @ ''/scenarios/'' @ sessionID,
                     rq_method = ''get'', rq_headers = [], rq_body = None\<rparr> e"
    using fetch_json_fails [OF own [OF that]] by (simp add: getAllScenarios_def)
  have 3: "fst (getScenario ident w) = Resolved Undefined
       \<and> console (snd (getScenario ident w)) = console w @ [LogError e]"
    if "call_fails w \<lparr>rq_url = apiBaseURL @ ''/scenario/'' @ ident,
                     rq_method = ''get'', rq_headers = [], rq_body = None\<rparr> e
      \<or> body_undecodable w \<lparr>rq_url = apiBaseURL @ ''/scenario/'' @ ident,
                     rq_method = ''get'', rq_headers = [], rq_body = None\<rparr> e"
    using fetch_json_fails [OF own [OF that]] by (simp add: getScenario_def)
  have 4: "fst (makeScenario sessionID name description w) = Resolved Undefined
       \<and> console (snd (makeScenario sessionID name description w))
            = console w @ [LogError e]"
    if "call_fails w \<lparr>rq_url = apiBaseURL @ ''/scenario/'' @ sessionID,
                     rq_method = ''post'',
                     rq_headers = [(''Content-Type'', ''application/json'')],
                     rq_body = Some (JObj [(''name'', name),
                                           (''description'', description)])\<rparr> e
      \<or> body_undecodable w \<lparr>rq_url = apiBaseURL @ ''/scenario/'' @ sessionID,
                     rq_method = ''post'',
                     rq_headers = [(''Content-Type'', ''application/json'')],
                     rq_body = Some (JObj [(''name'', name),
                                           (''description'', description)])\<rparr> e"
    using fetch_prop_fails [OF own [OF that]] by (simp add: makeScenario_def)
  have 5: "fst (doWallpaper str targetCoords patternID scenarioID w) = Resolved Undefined
       \<and> console (snd (doWallpaper str targetCoords patternID scenarioID w))
           = console w @ [LogWallpaper (targetWKT str targetCoords) scenarioID patternID,
                          LogError e]"
    if "call_fails w (wallpaper_request (targetWKT str targetCoords) patternID scenarioID) e
      \<or> body_undecodable w
           (wallpaper_request (targetWKT str targetCoords) patternID scenarioID) e"
    by (simp add: doWallpaper_def Let_def fetch_json_fails [OF logged [OF that]])
       (simp add: console_log_def)
  have 6: "fst (getPatterns sessionID w) = Resolved Undefined
       \<and> console (snd (getPatterns sessionID w)) = console w @ [LogError e]"
    if "call_fails w \<lparr>rq_url = apiBaseURL @ ''/pattern/'' @ sessionID,
                     rq_method = ''get'', rq_headers = [], rq_body = None\<rparr> e
      \<or> body_undecodable w \<lparr>rq_url = apiBaseURL @ ''/pattern/'' @ sessionID,
                     rq_method = ''get'', rq_headers = [], rq_body = None\<rparr> e"
    using fetch_json_fails [OF own [OF that]] by (simp add: getPatterns_def)
  have 7: "fst (getJobStatus jobID w) = Resolved Undefined
          \<and> console (snd (getJobStatus jobID w)) = console w @ [LogError e]"
    if "call_fails w \<lparr>rq_url = apiBaseURL @ ''/job/'' @ jobID,
                     rq_method = ''get'', rq_headers = [], rq_body = None\<rparr> e"
    using that by (simp add: call_fails_def getJobStatus_def fetch_def console_log_def)
  from 1 2 3 4 5 6 7 show ?thesis by blast
qed

text \<open>
  The amended C5 at a backend of which only \<^verbatim>\<open>/users\<close> is down (createSession), on a
  network that is down altogether (all seven operations) and at a backend whose bodies
  do not parse (the six operations that decode the body).
\<close>

theorem failures_logged_result_undefined_witness:
  "fst (createSession (users_down (TypeError ''Failed to fetch''))) = Resolved Undefined
   \<and> console (snd (createSession (users_down (TypeError ''Failed to fetch''))))
       = [LogError (TypeError ''Failed to fetch'')]
   \<and> fst (createSession (offline (TypeError ''Failed to fetch''))) = Resolved Undefined
   \<and> console (snd (createSession (offline (TypeError ''Failed to fetch''))))
       = [LogError (TypeError ''Failed to fetch'')]
   \<and> fst (getAllScenarios ''U1'' (offline (TypeError ''Failed to fetch''))) = Resolved Undefined
   \<and> console (snd (getAllScenarios ''U1'' (offline (TypeError ''Failed to fetch''))))
       = [LogError (TypeError ''Failed to fetch'')]
   \<and> fst (getScenario ''S1'' (offline (TypeError ''Failed to fetch''))) = Resolved Undefined
   \<and> console (snd (getScenario ''S1'' (offline (TypeError ''Failed to fetch''))))
       = [LogError (TypeError ''Failed to fetch'')]
   \<and> fst (makeScenario ''U1'' (JStr ''plan'') (JStr ''text'')
            (offline (TypeError ''Failed to fetch''))) = Resolved Undefined
   \<and> console (snd (makeScenario ''U1'' (JStr ''plan'') (JStr ''text'')
                     (offline (TypeError ''Failed to fetch''))))
       = [LogError (TypeError ''Failed to fetch'')]
   \<and> fst (doWallpaper numberToString [[0, 0], [0, 1], [1, 1]] (JNum 7) (JStr ''S1'')
            (offline (TypeError ''Failed to fetch''))) = Resolved Undefined
   \<and> console (snd (doWallpaper numberToString [[0, 0], [0, 1], [1, 1]] (JNum 7) (JStr ''S1'')
                     (offline (TypeError ''Failed to fetch''))))
       = [LogWallpaper ''POLYGON((0 0, 0 1, 1 1))'' (JStr ''S1'') (JNum 7),
          LogError (TypeError ''Failed to fetch'')]
   \<and> fst (getPatterns ''U1'' (offline (TypeError ''Failed to fetch''))) = Resolved Undefined
   \<and> console (snd (getPatterns ''U1'' (offline (TypeError ''Failed to fetch''))))
       = [LogError (TypeError ''Failed to fetch'')]
   \<and> fst (getJobStatus ''J1'' (offline (TypeError ''Failed to fetch''))) = Resolved Undefined
   \<and> console (snd (getJobStatus ''J1'' (offline (TypeError ''Failed to fetch''))))
       = [LogError (TypeError ''Failed to fetch'')]
   \<and> fst (createSession (garbled (SyntaxError ''Unexpected token''))) = Resolved Undefined
   \<and> console (snd (createSession (garbled (SyntaxError ''Unexpected token''))))
       = [LogError (SyntaxError ''Unexpected token'')]
   \<and> fst (getPatterns ''U1'' (garbled (SyntaxError ''Unexpected token''))) = Resolved Undefined
   \<and> console (snd (getPatterns ''U1'' (garbled (SyntaxError ''Unexpected token''))))
       = [LogError (SyntaxError ''Unexpected token'')]"
proof -
  have wkt: "targetWKT numberToString [[0, 0], [0, 1], [1, 1]] = ''POLYGON((0 0, 0 1, 1 1))''"
    by code_simp
  have users: "call_fails (users_down (TypeError ''Failed to fetch'')) rq
                 (TypeError ''Failed to fetch'')"
    if "rq_url rq = apiBaseURL @ ''/users''" for rq
    using that by (simp add: call_fails_def users_down_def quiet_def)
  have off: "call_fails (offline (TypeError ''Failed to fetch'')) rq
               (TypeError ''Failed to fetch'')" for rq
    by (simp add: call_fails_def offline_def quiet_def)
  have gar: "body_undecodable (garbled (SyntaxError ''Unexpected token'')) rq
               (SyntaxError ''Unexpected token'')" for rq
    by (simp add: body_undecodable_def garbled_def quiet_def)
  have c0: "console (users_down (TypeError ''Failed to fetch'')) = []"
    by (simp add: users_down_def quiet_def)
  have c1: "console (offline (TypeError ''Failed to fetch'')) = []"
    by (simp add: offline_def quiet_def)
  have c2: "console (garbled (SyntaxError ''Unexpected token'')) = []"
    by (simp add: garbled_def quiet_def)
  note part = failures_logged_result_undefined
      [where w = "users_down (TypeError ''Failed to fetch'')"
        and e = "TypeError ''Failed to fetch''"
        and jobID = "''J1''" and sessionID = "''U1''" and ident = "''S1''"
        and name = "JStr ''plan''" and description = "JStr ''text''"
        and str = numberToString and targetCoords = "[[0, 0], [0, 1], [1, 1]]"
        and patternID = "JNum 7" and scenarioID = "JStr ''S1''"]
  note down = failures_logged_result_undefined
      [where w = "offline (TypeError ''Failed to fetch'')"
        and e = "TypeError ''Failed to fetch''"
        and jobID = "''J1''" and sessionID = "''U1''" and ident = "''S1''"
        and name = "JStr ''plan''" and description = "JStr ''text''"
        and str = numberToString and targetCoords = "[[0, 0], [0, 1], [1, 1]]"
        and patternID = "JNum 7" and scenarioID = "JStr ''S1''"]
  note bad = failures_logged_result_undefined
      [where w = "garbled (SyntaxError ''Unexpected token'')"
        and e = "SyntaxError ''Unexpected token''"
        and jobID = "''J1''" and sessionID = "''U1''" and ident = "''S1''"
        and name = "JStr ''plan''" and description = "JStr ''text''"
        and str = numberToString and targetCoords = "[[0, 0], [0, 1], [1, 1]]"
        and patternID = "JNum 7" and scenarioID = "JStr ''S1''"]
  from part down bad show ?thesis
    unfolding c0 c1 c2 wkt by (simp add: users off gar)
qed

subsection \<open>Pattern identifiers\<close>

text \<open>
  C6 at two calls \<^verbatim>\<open>createPattern(geometry, "park")\<close> for which the random source
  delivers the byte 7 twice: both calls return the identifier 7.
\<close>

theorem createPattern_twice_same_id:
  "fst (createPatterns (array_text numberToString)
          [([[0, 0], [0, 1], [1, 1]], ''park''), ([[0, 0], [0, 1], [1, 1]], ''park'')]
          (answering JNull))
     = [Resolved 7, Resolved 7]"
  by (simp add: createPattern_eq answering_def quiet_def)

text \<open>
  C9: for every geometry and name, createPattern resolves with an integer from 0 to
  255, one random byte; so among the identifiers of 257 calls or more, made one after
  the other, two are equal.
\<close>

theorem createPattern_id_is_byte:
  "(\<exists>n. fst (createPattern gstr geom name w) = Resolved n \<and> n \<le> 255)
   \<and> (257 \<le> length calls \<longrightarrow> \<not> distinct (fst (createPatterns gstr calls w)))"
proof
  show "\<exists>n. fst (createPattern gstr geom name w) = Resolved n \<and> n \<le> 255"
    by (simp add: createPattern_eq byte_le_255)
next
  show "257 \<le> length calls \<longrightarrow> \<not> distinct (fst (createPatterns gstr calls w))"
  proof (intro impI notI)
    assume many: "257 \<le> length calls"
      and d: "distinct (fst (createPatterns gstr calls w))"
    have "card (set (fst (createPatterns gstr calls w))) \<le> card (Resolved ` {..255::nat})"
      by (rule card_mono) (simp_all add: createPatterns_range)
    also have "\<dots> \<le> card {..255::nat}"
      by (rule card_image_le) simp
    finally have "card (set (fst (createPatterns gstr calls w))) \<le> 256"
      by simp
    moreover have "card (set (fst (createPatterns gstr calls w))) = length calls"
      using d by (simp add: distinct_card createPatterns_length)
    ultimately show False
      using many by simp
  qed
qed

text \<open>C9 at 257 calls with the same triangle and the name \<^verbatim>\<open>park\<close>.\<close>

theorem createPattern_id_is_byte_witness:
  "fst (createPattern (array_text numberToString) [[0, 0], [0, 1], [1, 1]] ''park''
          (answering JNull)) = Resolved 7
   \<and> \<not> distinct (fst (createPatterns (array_text numberToString)
                        (replicate 257 ([[0, 0], [0, 1], [1, 1]], ''park''))
                        (answering JNull)))"
proof -
  have len: "257 \<le> length (replicate 257 ([[0, 0], [0, 1], [1, 1 :: int]], ''park''))"
    by simp
  have one: "fst (createPattern (array_text numberToString) [[0, 0], [0, 1], [1, 1]] ''park''
          (answering JNull)) = Resolved 7"
    by (simp add: createPattern_eq answering_def quiet_def)
  from createPattern_id_is_byte [of "array_text numberToString" "[[0, 0], [0, 1], [1, 1]]"
         "''park''" "answering JNull"
         "replicate 257 ([[0, 0], [0, 1], [1, 1]], ''park'')"] len one
  show ?thesis by blast
qed

subsection \<open>Land-use tables and codes\<close>

text \<open>
  C7: getWallpaperResults and getLulcTableForParcel always resolve with a table, and
  every key of either table is a category name that getLulcCodes maps a code to; these
  names are forest, grass, housing, commercial and orchard.
\<close>

theorem lulc_table_keys_registered:
  "\<exists>t t' codes.
      fst (getWallpaperResults jobID w1) = Resolved t
    \<and> fst (getLulcTableForParcel geom w2) = Resolved t'
    \<and> fst (getLulcCodes w3) = Resolved codes
    \<and> set (map fst t) \<subseteq> set (map snd codes)
    \<and> set (map fst t') \<subseteq> set (map snd codes)
    \<and> set (map snd codes) = {''forest'', ''grass'', ''housing'', ''commercial'', ''orchard''}"
  by (simp add: getWallpaperResults_eq getLulcTableForParcel_eq getLulcCodes_def)

text \<open>
  C8: every call of getLulcCodes, in any state of the world and also right after
  another call, resolves with the same mapping, 1 to forest, 2 to grass, 3 to housing,
  4 to commercial and 5 to orchard, and changes nothing.
\<close>

theorem getLulcCodes_same_every_call:
  "fst (getLulcCodes w) = fst (getLulcCodes w')
   \<and> fst (getLulcCodes (snd (getLulcCodes w))) = fst (getLulcCodes w)
   \<and> snd (getLulcCodes w) = w
   \<and> fst (getLulcCodes w) =
       Resolved [(1, ''forest''), (2, ''grass''), (3, ''housing''), (4, ''commercial''),
                 (5, ''orchard'')]"
  by (simp add: getLulcCodes_def)

text \<open>
  C10: the job id is never read. For any two job ids, getWallpaperResults run on the
  same world (the same random source at the same position) resolves with the same
  table and leaves the same world.
\<close>

theorem getWallpaperResults_ignores_jobID:
  "getWallpaperResults jobID w = getWallpaperResults jobID' w"
  by (simp add: getWallpaperResults_def)

end
